theory Spec2Isabelle
  imports Main "HOL-Library.Char_ord" "HOL-Library.List_Lexorder" "HOL-Library.Word"
begin

unbundle bit_operations_syntax

section \<open>Product canonicalization: the model of pipeline/standardization.py\<close>

text \<open>
  The development embeds \<^verbatim>\<open>src/pipeline/standardization.py\<close>: the name normalisation,
  the inversion of the parent-to-aliases table, the name-based identifier, and
  \<^verbatim>\<open>create_parent_child_master_table\<close>.

  Conventions of the embedding.
  \<^item> A Python \<^verbatim>\<open>str\<close> is a \<^typ>\<open>string\<close>, one \<^typ>\<open>char\<close> per code point. A
    \<^typ>\<open>char\<close> holds the code points U+0000 .. U+00FF, so the model covers the names
    written in Latin-1; on these, whitespace, lower-casing, UTF-8 encoding and the
    ordering of strings are exactly Python's.
  \<^item> Python compares strings code point by code point, a proper prefix being smaller:
    this is the lexicographic order of \<^theory_text>\<open>List_Lexorder\<close> over the order of
    \<^theory_text>\<open>Char_ord\<close>.
  \<^item> A data frame is the list of its rows, in index order. A null cell is \<^const>\<open>None\<close>.
  \<^item> The module constant \<^verbatim>\<open>PARENT_CHILD_MAPPING\<close> is a parameter \<open>mapping\<close>: the list of
    the dictionary's items in insertion order.
  \<^item> \<^verbatim>\<open>pd.to_datetime(..., errors='coerce', utc=True)\<close> is library code; what it reads
    from a non-null cell is a parameter \<open>parse\<close>, which sees the whole column and the
    cell and returns the instant (an integer count of nanoseconds since the epoch)
    or \<^const>\<open>None\<close> for a cell it cannot read.
\<close>

subsection \<open>Strings\<close>

text \<open>The characters that \<^verbatim>\<open>\s\<close> matches and \<^verbatim>\<open>str.strip()\<close> removes, below U+0100:
  TAB, LF, VT, FF, CR, the separators U+001C .. U+001F, the space, NEL and the
  no-break space.\<close>

definition is_space :: "char \<Rightarrow> bool" where
  "is_space c = (let n = (of_char c :: nat) in
     (9 \<le> n \<and> n \<le> 13) \<or> (28 \<le> n \<and> n \<le> 32) \<or> n = 133 \<or> n = 160)"

text \<open>\<^verbatim>\<open>re.sub(r'\s+', ' ', s)\<close>: every maximal run of whitespace becomes one space.\<close>

function collapse_ws :: "string \<Rightarrow> string" where
  "collapse_ws [] = []"
| "collapse_ws (c # cs) =
     (if is_space c then CHR '' '' # collapse_ws (dropWhile is_space cs)
      else c # collapse_ws cs)"
  by pat_completeness auto
termination
  by (relation "measure length") (auto simp: length_dropWhile_le less_Suc_eq_le)

text \<open>\<^verbatim>\<open>s.strip()\<close>.\<close>

definition strip :: "string \<Rightarrow> string" where
  "strip s = rev (dropWhile is_space (rev (dropWhile is_space s)))"

text \<open>\<^verbatim>\<open>s.lower()\<close>: below U+0100 the letters with a lower-case form are A .. Z and
  U+00C0 .. U+00DE without the multiplication sign U+00D7; each moves up by 32.\<close>

definition lower_char :: "char \<Rightarrow> char" where
  "lower_char c = (let n = (of_char c :: nat) in
     if (65 \<le> n \<and> n \<le> 90) \<or> (192 \<le> n \<and> n \<le> 222 \<and> n \<noteq> 215)
     then char_of (n + 32) else c)"

definition lower :: "string \<Rightarrow> string" where
  "lower s = map lower_char s"

text \<open>The normalisation written out at lines 83 and 115:
  \<^verbatim>\<open>re.sub(r'\s+', ' ', x).strip().lower()\<close>.\<close>

definition cleaned_name :: "string \<Rightarrow> string" where
  "cleaned_name x = lower (strip (collapse_ws x))"


subsection \<open>The inverted alias table\<close>

text \<open>\<^verbatim>\<open>_create_child_to_parent_map\<close>: the inner loop stores the parent under each cleaned
  child, the outer loop runs over the items of the mapping.\<close>

fun add_children :: "string \<Rightarrow> string list \<Rightarrow> (string \<rightharpoonup> string) \<Rightarrow> (string \<rightharpoonup> string)" where
  "add_children parent [] child_map = child_map"
| "add_children parent (child # children) child_map =
     add_children parent children (child_map(cleaned_name child \<mapsto> parent))"

fun add_parents :: "(string \<times> string list) list \<Rightarrow> (string \<rightharpoonup> string) \<Rightarrow> (string \<rightharpoonup> string)" where
  "add_parents [] child_map = child_map"
| "add_parents ((parent, children) # rest) child_map =
     add_parents rest (add_children parent children child_map)"

definition create_child_to_parent_map :: "(string \<times> string list) list \<Rightarrow> (string \<rightharpoonup> string)" where
  "create_child_to_parent_map mapping = add_parents mapping Map.empty"

text \<open>The assignments \<^verbatim>\<open>child_map[cleaned_child] = parent\<close> in the order the two loops
  execute them.\<close>

definition alias_writes :: "(string \<times> string list) list \<Rightarrow> (string \<times> string) list" where
  "alias_writes mapping =
     concat (map (\<lambda>(parent, children). map (\<lambda>child. (cleaned_name child, parent)) children) mapping)"

subsection \<open>SHA-1 and the name-based identifier\<close>

type_synonym byte = "8 word"
type_synonym word32 = "32 word"

definition rotl :: "nat \<Rightarrow> word32 \<Rightarrow> word32" where
  "rotl n w = push_bit n w OR drop_bit (32 - n) w"

definition be32 :: "byte list \<Rightarrow> word32" where
  "be32 bs = foldl (\<lambda>acc b. push_bit 8 acc OR ucast b) 0 bs"

definition word32_bytes :: "word32 \<Rightarrow> byte list" where
  "word32_bytes w = map (\<lambda>i. ucast (drop_bit (8 * (3 - i)) w)) [0..<4]"

definition length_bytes :: "nat \<Rightarrow> byte list" where
  "length_bytes n = map (\<lambda>i. ucast (drop_bit (8 * (7 - i)) (of_nat n :: 64 word))) [0..<8]"

definition sha1_pad :: "byte list \<Rightarrow> byte list" where
  "sha1_pad msg = msg @ [0x80] @ replicate ((64 - (length msg + 9) mod 64) mod 64) 0
                   @ length_bytes (8 * length msg)"

definition chunks :: "nat \<Rightarrow> 'a list \<Rightarrow> 'a list list" where
  "chunks n xs = map (\<lambda>i. take n (drop (n * i) xs)) [0..<length xs div n]"

fun schedule :: "nat \<Rightarrow> word32 list \<Rightarrow> word32 list" where
  "schedule 0 w = w"
| "schedule (Suc n) w =
     (let t = length w
      in schedule n (w @ [rotl 1 (w ! (t - 3) XOR w ! (t - 8) XOR w ! (t - 14) XOR w ! (t - 16))]))"

definition sha1_f :: "nat \<Rightarrow> word32 \<Rightarrow> word32 \<Rightarrow> word32 \<Rightarrow> word32" where
  "sha1_f t b c d =
     (if t < 20 then (b AND c) OR (NOT b AND d)
      else if t < 40 then b XOR c XOR d
      else if t < 60 then (b AND c) OR (b AND d) OR (c AND d)
      else b XOR c XOR d)"

definition sha1_k :: "nat \<Rightarrow> word32" where
  "sha1_k t = (if t < 20 then 0x5A827999 else if t < 40 then 0x6ED9EBA1
               else if t < 60 then 0x8F1BBCDC else 0xCA62C1D6)"

type_synonym sha1_state = "word32 \<times> word32 \<times> word32 \<times> word32 \<times> word32"

fun sha1_round :: "nat \<times> word32 \<Rightarrow> sha1_state \<Rightarrow> sha1_state" where
  "sha1_round (t, w) (a, b, c, d, e) =
     (rotl 5 a + sha1_f t b c d + e + sha1_k t + w, a, rotl 30 b, c, d)"

fun sha1_compress :: "byte list \<Rightarrow> sha1_state \<Rightarrow> sha1_state" where
  "sha1_compress block (h0, h1, h2, h3, h4) =
     (let w = schedule 64 (map be32 (chunks 4 block));
          (a, b, c, d, e) = fold sha1_round (zip [0..<80] w) (h0, h1, h2, h3, h4)
      in (h0 + a, h1 + b, h2 + c, h3 + d, h4 + e))"

text \<open>\<^verbatim>\<open>hashlib.sha1(msg).digest()\<close>: the twenty bytes of the digest.\<close>

definition sha1 :: "byte list \<Rightarrow> byte list" where
  "sha1 msg =
     (let (h0, h1, h2, h3, h4) =
            fold sha1_compress (chunks 64 (sha1_pad msg))
              (0x67452301, 0xEFCDAB89, 0x98BADCFE, 0x10325476, 0xC3D2E1F0)
      in concat (map word32_bytes [h0, h1, h2, h3, h4]))"

text \<open>\<^verbatim>\<open>bytes(name, "utf-8")\<close> for code points below U+0100: one byte below U+0080,
  two bytes from there on.\<close>

definition utf8_char :: "char \<Rightarrow> byte list" where
  "utf8_char c = (let n = (of_char c :: nat) in
     if n < 128 then [of_nat n]
     else [of_nat (192 + n div 64), of_nat (128 + n mod 64)])"

definition utf8 :: "string \<Rightarrow> byte list" where
  "utf8 s = concat (map utf8_char s)"

text \<open>A \<^verbatim>\<open>uuid.UUID\<close> is its 128-bit integer. \<^verbatim>\<open>int.from_bytes(bs)\<close> and
  \<^verbatim>\<open>UUID.bytes\<close> are big-endian.\<close>

definition from_bytes :: "byte list \<Rightarrow> int" where
  "from_bytes bs = foldl (\<lambda>acc b. acc * 256 + uint b) 0 bs"

definition to_bytes16 :: "int \<Rightarrow> byte list" where
  "to_bytes16 n = map (\<lambda>i. of_int (n div 256 ^ (15 - i))) [0..<16]"

text \<open>Line 5: \<^verbatim>\<open>NAMESPACE_UUID = uuid.UUID('6ba7b810-9dad-11d1-80b4-00c04fd430c8')\<close>.\<close>

definition NAMESPACE_UUID :: int where
  "NAMESPACE_UUID = 0x6ba7b8109dad11d180b400c04fd430c8"

text \<open>\<^verbatim>\<open>UUID(bytes=bs, version=v)\<close>: the constructor overwrites the variant and the
  version with four integer masks.\<close>

definition uuid_from_bytes :: "byte list \<Rightarrow> int \<Rightarrow> int" where
  "uuid_from_bytes bs version =
     (let i = from_bytes bs;
          i = i AND NOT (push_bit 48 0xc000);
          i = i OR push_bit 48 0x8000;
          i = i AND NOT (push_bit 64 0xf000);
          i = i OR push_bit 76 version
      in i)"

definition uuid5 :: "int \<Rightarrow> string \<Rightarrow> int" where
  "uuid5 namespace name = uuid_from_bytes (take 16 (sha1 (to_bytes16 namespace @ utf8 name))) 5"

definition hex_digit :: "int \<Rightarrow> char" where
  "hex_digit d = (if d < 10 then char_of (48 + d) else char_of (87 + d))"

function to_hex :: "int \<Rightarrow> string" where
  "to_hex n = (if n < 16 then [hex_digit n] else to_hex (n div 16) @ [hex_digit (n mod 16)])"
  by pat_completeness auto
termination
  by (relation "measure nat") auto

declare to_hex.simps [simp del]

text \<open>\<^verbatim>\<open>'%032x' % i\<close>: lower-case hexadecimal, padded with zeros to 32 characters,
  the sign counted.\<close>

definition format_032x :: "int \<Rightarrow> string" where
  "format_032x i =
     (if i < 0 then (let h = to_hex (- i) in ''-'' @ replicate (31 - length h) CHR ''0'' @ h)
      else (let h = to_hex i in replicate (32 - length h) CHR ''0'' @ h))"

text \<open>\<^verbatim>\<open>UUID.__str__\<close>.\<close>

definition uuid_str :: "int \<Rightarrow> string" where
  "uuid_str i =
     (let hex = format_032x i
      in take 8 hex @ ''-'' @ take 4 (drop 8 hex) @ ''-'' @ take 4 (drop 12 hex) @ ''-''
         @ take 4 (drop 16 hex) @ ''-'' @ drop 20 hex)"

text \<open>\<^verbatim>\<open>_generate_stable_uuid\<close>, lines 90-92.\<close>

definition generate_stable_uuid :: "string \<Rightarrow> string" where
  "generate_stable_uuid name = uuid_str (uuid5 NAMESPACE_UUID name)"

text \<open>The identifier as the specification words it, for comparison with the code: the
  name-based UUID of version 5 takes the first sixteen octets of the SHA-1 digest of the
  namespace octets followed by the name octets, writes the version 0101 into the four
  high bits of octet 6 and the variant 10 into the two high bits of octet 8, and prints
  the octets in hexadecimal, grouped 8-4-4-4-12.\<close>

definition hex_byte :: "byte \<Rightarrow> string" where
  "hex_byte b = [hex_digit (uint b div 16), hex_digit (uint b mod 16)]"




text \<open>Hexadecimal of a fixed width, for the proofs.\<close>

fun hexn :: "nat \<Rightarrow> int \<Rightarrow> string" where
  "hexn 0 n = []"
| "hexn (Suc k) n = hexn k (n div 16) @ [hex_digit (n mod 16)]"

subsection \<open>The master table\<close>

text \<open>A row of the input frame.\<close>

record raw_product =
  raw_product_id :: string
  raw_product_name :: "string option"
  created_at :: "string option"

text \<open>A row once \<^verbatim>\<open>dropna(subset=['raw_product_name'])\<close> has run: the name is there.\<close>

record product =
  product_id :: string
  product_name :: string
  product_created :: "string option"

text \<open>A row of the master table.\<close>

record parent_row =
  parent_product_id :: string
  parent_product_name :: string
  child_product_ids :: "string list"
  child_product_names :: "string list"
  all_possible_child_names :: "string list"
  earliest_created_at :: "int option"

text \<open>Line 106.\<close>

definition as_product :: "raw_product \<Rightarrow> string \<Rightarrow> product" where
  "as_product r n = \<lparr>product_id = raw_product_id r, product_name = n,
                      product_created = created_at r\<rparr>"

definition dropna_name :: "raw_product list \<Rightarrow> product list" where
  "dropna_name df =
     List.map_filter (\<lambda>r. case raw_product_name r of
          None \<Rightarrow> None
        | Some n \<Rightarrow> Some (as_product r n)) df"

text \<open>Line 109: \<^verbatim>\<open>df[df['raw_product_name'].astype(str).str.strip() != '0']\<close>.\<close>

definition drop_zero_names :: "product list \<Rightarrow> product list" where
  "drop_zero_names df = filter (\<lambda>r. strip (product_name r) \<noteq> ''0'') df"

text \<open>Line 116: \<^verbatim>\<open>df['cleaned_name'].map(CHILD_TO_PARENT_MAP)\<close>, null where the key is absent.\<close>

definition parent_name_from_map :: "(string \<rightharpoonup> string) \<Rightarrow> product \<Rightarrow> string option" where
  "parent_name_from_map child_map r = child_map (cleaned_name (product_name r))"

text \<open>Line 120: \<^verbatim>\<open>df.groupby(cleaned_name)['raw_product_name'].transform('first')\<close>,
  the name of the first row of the frame that has the row's cleaned name.\<close>

definition parent_name_for_unmapped :: "product list \<Rightarrow> product \<Rightarrow> string option" where
  "parent_name_for_unmapped df r =
     (case filter (\<lambda>x. cleaned_name (product_name x) = cleaned_name (product_name r)) df of
        [] \<Rightarrow> None
      | x # _ \<Rightarrow> Some (product_name x))"

text \<open>Line 121: \<^verbatim>\<open>df['parent_name_from_map'].fillna(df['parent_name_for_unmapped'])\<close>.\<close>

definition parent_name :: "(string \<rightharpoonup> string) \<Rightarrow> product list \<Rightarrow> product \<Rightarrow> string option" where
  "parent_name child_map df r =
     (case parent_name_from_map child_map r of
        Some p \<Rightarrow> Some p
      | None \<Rightarrow> parent_name_for_unmapped df r)"

text \<open>Line 125: a null cell stays null, any other cell is read by \<open>parse\<close>.\<close>

definition to_datetime ::
  "(string option list \<Rightarrow> string \<Rightarrow> int option) \<Rightarrow> string option list \<Rightarrow> string option \<Rightarrow> int option" where
  "to_datetime parse column cell = (case cell of None \<Rightarrow> None | Some s \<Rightarrow> parse column s)"

text \<open>\<^verbatim>\<open>Series.unique()\<close>: the distinct values in order of first appearance.\<close>

definition unique :: "'a list \<Rightarrow> 'a list" where
  "unique xs = rev (remdups (rev xs))"

text \<open>\<^verbatim>\<open>Series.dropna()\<close> and \<^verbatim>\<open>Series.min()\<close>.\<close>

definition dropna :: "'a option list \<Rightarrow> 'a list" where
  "dropna xs = List.map_filter id xs"

fun series_min :: "int list \<Rightarrow> int option" where
  "series_min [] = None"
| "series_min (x # xs) = Some (fold min xs x)"

text \<open>Line 131: \<^verbatim>\<open>dates.dropna().min() if not dates.dropna().empty else None\<close>.\<close>

definition agg_created_at :: "int option list \<Rightarrow> int option" where
  "agg_created_at dates = (if dropna dates \<noteq> [] then series_min (dropna dates) else None)"

text \<open>The rows of one group of \<^verbatim>\<open>df.groupby('parent_name')\<close>, in frame order.\<close>

definition group_rows :: "(string \<rightharpoonup> string) \<Rightarrow> product list \<Rightarrow> string \<Rightarrow> product list" where
  "group_rows child_map df p = filter (\<lambda>r. parent_name child_map df r = Some p) df"

text \<open>The keys of \<^verbatim>\<open>df.groupby('parent_name')\<close>: null keys are left out, the others come
  sorted.\<close>

definition group_keys :: "(string \<rightharpoonup> string) \<Rightarrow> product list \<Rightarrow> string list" where
  "group_keys child_map df = sort (unique (List.map_filter (parent_name child_map df) df))"

text \<open>Lines 127-146, one row per group: the three aggregations of \<^verbatim>\<open>agg_rules\<close>, the
  identifier of step 5 and the alias list of step 6.\<close>

definition parent_group ::
  "(string option list \<Rightarrow> string \<Rightarrow> int option) \<Rightarrow> (string \<times> string list) list \<Rightarrow>
   product list \<Rightarrow> string \<Rightarrow> parent_row" where
  "parent_group parse mapping df p =
     (let grp = group_rows (create_child_to_parent_map mapping) df p
      in \<lparr>parent_product_id = generate_stable_uuid p,
          parent_product_name = p,
          child_product_ids = sort (unique (map product_id grp)),
          child_product_names = sort (unique (map product_name grp)),
          all_possible_child_names = (case map_of mapping p of Some names \<Rightarrow> names | None \<Rightarrow> [p]),
          earliest_created_at =
            agg_created_at (map (\<lambda>r. to_datetime parse (map product_created df) (product_created r)) grp)\<rparr>)"

definition parent_groups ::
  "(string option list \<Rightarrow> string \<Rightarrow> int option) \<Rightarrow> (string \<times> string list) list \<Rightarrow>
   product list \<Rightarrow> parent_row list" where
  "parent_groups parse mapping df =
     map (parent_group parse mapping df) (group_keys (create_child_to_parent_map mapping) df)"

text \<open>The rows that reach the grouping: lines 106-109.\<close>

definition surviving :: "raw_product list \<Rightarrow> product list" where
  "surviving all_product_data_df = drop_zero_names (dropna_name all_product_data_df)"

text \<open>\<^verbatim>\<open>create_parent_child_master_table\<close>, lines 95-164. The empty frame returns at
  line 104; the last step is \<^verbatim>\<open>sort_values('parent_name')\<close>.\<close>

definition create_parent_child_master_table ::
  "(string option list \<Rightarrow> string \<Rightarrow> int option) \<Rightarrow> (string \<times> string list) list \<Rightarrow>
   raw_product list \<Rightarrow> parent_row list" where
  "create_parent_child_master_table parse mapping all_product_data_df =
     (if all_product_data_df = [] then []
      else sort_key parent_product_name
             (parent_groups parse mapping (surviving all_product_data_df)))"

subsection \<open>Sample inputs\<close>

text \<open>An alias table in which two parents declare the same alias, up to case and
  whitespace.\<close>

definition duplicate_alias_mapping :: "(string \<times> string list) list" where
  "duplicate_alias_mapping =
     [(''Red Onion A'', [''Red Onion A'', ''Red Onion'']),
      (''Red Onion B'', [''Red Onion B'', '' red  ONION '', ''Red Onion Grade B''])]"

text \<open>A small frame: three spellings of one curated product, two spellings of a
  product the table does not know, a row without a name and a row named 0.\<close>

definition sample_mapping :: "(string \<times> string list) list" where
  "sample_mapping = [(''Tomato A'', [''Tomato A'', ''Tomatoes Grade A'', ''Tomato''])]"

definition sample_records :: "raw_product list" where
  "sample_records =
     [\<lparr>raw_product_id = ''A1'', raw_product_name = Some ''Tomato A'', created_at = Some ''2024-01-03''\<rparr>,
      \<lparr>raw_product_id = ''Z2'', raw_product_name = Some ''zug soap '', created_at = None\<rparr>,
      \<lparr>raw_product_id = ''A2'', raw_product_name = Some '' tomato a '', created_at = Some ''2024-01-01''\<rparr>,
      \<lparr>raw_product_id = ''N0'', raw_product_name = None, created_at = Some ''2023-12-31''\<rparr>,
      \<lparr>raw_product_id = ''Z1'', raw_product_name = Some ''Zug Soap'', created_at = Some ''soon''\<rparr>,
      \<lparr>raw_product_id = ''Z0'', raw_product_name = Some '' 0'', created_at = Some ''2023-12-31''\<rparr>,
      \<lparr>raw_product_id = ''A3'', raw_product_name = Some ''Tomatoes Grade A'', created_at = None\<rparr>]"

text \<open>A reader of dates that knows three days and nothing else.\<close>

definition sample_parse :: "string option list \<Rightarrow> string \<Rightarrow> int option" where
  "sample_parse column s =
     map_of [(''2023-12-31'', 1703980800000000000), (''2024-01-01'', 1704067200000000000),
             (''2024-01-03'', 1704240000000000000)] s"

text \<open>Two sources that reuse one identifier for different products.\<close>

definition shared_id_records :: "raw_product list" where
  "shared_id_records =
     [\<lparr>raw_product_id = ''1'', raw_product_name = Some ''Potato'', created_at = None\<rparr>,
      \<lparr>raw_product_id = ''1'', raw_product_name = Some ''Tomato'', created_at = None\<rparr>]"

text \<open>A frame with a row whose name is the empty string.\<close>

definition empty_name_records :: "raw_product list" where
  "empty_name_records =
     [\<lparr>raw_product_id = ''E1'', raw_product_name = Some '''', created_at = None\<rparr>,
      \<lparr>raw_product_id = ''A1'', raw_product_name = Some ''Tomato A'', created_at = None\<rparr>]"

section \<open>Normalisation\<close>

lemma is_space_blank [simp]: "is_space CHR '' ''"
  by (simp add: is_space_def)

lemma is_space_lower [simp]: "is_space (lower_char c) = is_space c"
  unfolding is_space_def lower_char_def Let_def
  by (auto split: if_splits)

lemma lower_char_blank [simp]: "lower_char CHR '' '' = CHR '' ''"
  by (simp add: lower_char_def)

lemma lower_char_idem [simp]: "lower_char (lower_char c) = lower_char c"
  unfolding lower_char_def Let_def
  by (auto split: if_splits)
















section \<open>The empty frame\<close>

text \<open>C8. On an input frame without rows the function returns the empty table; the
  model has no failing branch, so this is a normal return.\<close>

theorem empty_input_gives_empty_table:
  "create_parent_child_master_table parse mapping [] = []"
  by (simp add: create_parent_child_master_table_def)

section \<open>The inverted alias table is last-write-wins\<close>

lemma add_children_map_of:
  "add_children parent children m = m ++ map_of (rev (map (\<lambda>child. (cleaned_name child, parent)) children))"
proof (induction children arbitrary: m)
  case Nil
  show ?case by simp
next
  case (Cons child children)
  show ?case
    by (simp add: Cons.IH map_add_upd_left map_add_assoc [symmetric]) (simp add: map_add_def fun_eq_iff split: option.splits)
qed

lemma add_parents_map_of:
  "add_parents mapping m = m ++ map_of (rev (alias_writes mapping))"
proof (induction mapping arbitrary: m)
  case Nil
  show ?case by (simp add: alias_writes_def)
next
  case (Cons entry mapping)
  obtain parent children where e: "entry = (parent, children)" by (cases entry)
  have w: "alias_writes (entry # mapping) =
      map (\<lambda>child. (cleaned_name child, parent)) children @ alias_writes mapping"
    by (simp add: alias_writes_def e)
  show ?case
    unfolding w by (simp add: e Cons.IH add_children_map_of)
qed

lemma create_child_to_parent_map_map_of:
  "create_child_to_parent_map mapping = map_of (rev (alias_writes mapping))"
  by (simp add: create_child_to_parent_map_def add_parents_map_of)

text \<open>C7. Building the inverted table never fails: it is a total function of the
  mapping. When several parents declare aliases with the same cleaned form, the key
  holds the parent of the assignment executed last: if the sequence of assignments is
  \<open>before @ (k, p) # after\<close> and \<open>after\<close> does not assign \<open>k\<close>, the table maps
  \<open>k\<close> to \<open>p\<close>.\<close>

theorem alias_last_write_wins:
  assumes "alias_writes mapping = before @ (k, p) # after"
    and "k \<notin> fst ` set after"
  shows "create_child_to_parent_map mapping k = Some p"
proof -
  have "map_of (rev after) k = None"
    using assms(2) by (simp add: map_of_eq_None_iff)
  then show ?thesis
    by (simp add: create_child_to_parent_map_map_of assms(1) map_add_def)
qed

lemma duplicate_alias_writes:
  "alias_writes duplicate_alias_mapping =
     [(''red onion a'', ''Red Onion A''), (''red onion'', ''Red Onion A''),
      (''red onion b'', ''Red Onion B'')] @ (''red onion'', ''Red Onion B'') #
     [(''red onion grade b'', ''Red Onion B'')]"
  by code_simp

text \<open>Both parents of the sample declare the alias \<open>red onion\<close>; the second wins.\<close>

theorem alias_last_write_wins_witness:
  "alias_writes duplicate_alias_mapping =
     [(''red onion a'', ''Red Onion A''), (''red onion'', ''Red Onion A''),
      (''red onion b'', ''Red Onion B'')] @ (''red onion'', ''Red Onion B'') #
     [(''red onion grade b'', ''Red Onion B'')]
   \<and> ''red onion'' \<notin> fst ` set [(''red onion grade b'', ''Red Onion B'')]
   \<and> create_child_to_parent_map duplicate_alias_mapping ''red onion'' = Some ''Red Onion B''"
proof -
  have n: "''red onion'' \<notin> fst ` set [(''red onion grade b'', ''Red Onion B'')]" by simp
  show ?thesis
    using duplicate_alias_writes n alias_last_write_wins [OF duplicate_alias_writes n] by blast
qed


section \<open>The rows of the master table\<close>

lemma set_unique [simp]: "set (unique xs) = set xs"
  by (simp add: unique_def)

lemma distinct_unique [simp]: "distinct (unique xs)"
  by (simp add: unique_def)

lemma set_map_filter: "set (List.map_filter f xs) = {y. \<exists>x \<in> set xs. f x = Some y}"
  by (induction xs) (auto split: option.splits)

lemma set_group_keys:
  "set (group_keys child_map df) = {p. \<exists>r \<in> set df. parent_name child_map df r = Some p}"
  by (auto simp: group_keys_def set_map_filter)

lemma sorted_group_keys: "sorted (group_keys child_map df)"
  by (simp add: group_keys_def)

lemma distinct_group_keys: "distinct (group_keys child_map df)"
  by (simp add: group_keys_def)

lemma parent_names_of_groups:
  "map parent_product_name (parent_groups parse mapping df) =
     group_keys (create_child_to_parent_map mapping) df"
  by (simp add: parent_groups_def parent_group_def Let_def comp_def)

lemma surviving_Nil: "surviving [] = []"
  by (simp add: surviving_def dropna_name_def drop_zero_names_def map_filter_simps)

lemma sort_key_sorted_id: "sorted (map f xs) \<Longrightarrow> sort_key f xs = xs"
  by (induction xs) (auto simp: insort_is_Cons)

lemma master_table_rows:
  "create_parent_child_master_table parse mapping df =
     map (parent_group parse mapping (surviving df))
       (group_keys (create_child_to_parent_map mapping) (surviving df))"
proof -
  have s: "sort_key parent_product_name (parent_groups parse mapping (surviving df)) =
      parent_groups parse mapping (surviving df)"
    by (rule sort_key_sorted_id) (simp add: parent_names_of_groups sorted_group_keys)
  show ?thesis
  proof (cases "df = []")
    case True
    then show ?thesis
      by (simp add: create_parent_child_master_table_def surviving_Nil group_keys_def
          map_filter_simps unique_def)
  next
    case False
    then show ?thesis
      by (simp add: create_parent_child_master_table_def s) (simp add: parent_groups_def)
  qed
qed

lemma master_table_names:
  "map parent_product_name (create_parent_child_master_table parse mapping df) =
     group_keys (create_child_to_parent_map mapping) (surviving df)"
  by (simp add: master_table_rows parent_group_def Let_def comp_def)

lemma master_table_row_cases:
  assumes "row \<in> set (create_parent_child_master_table parse mapping df)"
  obtains p where "p \<in> set (group_keys (create_child_to_parent_map mapping) (surviving df))"
    and "row = parent_group parse mapping (surviving df) p"
  using assms by (auto simp: master_table_rows)

lemma parent_group_simps [simp]:
  "parent_product_name (parent_group parse mapping df p) = p"
  "child_product_ids (parent_group parse mapping df p) =
     sort (unique (map product_id (group_rows (create_child_to_parent_map mapping) df p)))"
  "child_product_names (parent_group parse mapping df p) =
     sort (unique (map product_name (group_rows (create_child_to_parent_map mapping) df p)))"
  "earliest_created_at (parent_group parse mapping df p) =
     agg_created_at (map (\<lambda>r. to_datetime parse (map product_created df) (product_created r))
        (group_rows (create_child_to_parent_map mapping) df p))"
  by (simp_all add: parent_group_def Let_def)

text \<open>C9. The master table is sorted ascending by parent name, no parent name occurs
  twice, and in every row the lists of child ids and of child names are sorted and free
  of duplicates. The table is a function of the input frame, the alias table and the
  reader of dates, so equal inputs give equal tables.\<close>

theorem master_table_sorted:
  "sorted (map parent_product_name (create_parent_child_master_table parse mapping df))
   \<and> distinct (map parent_product_name (create_parent_child_master_table parse mapping df))
   \<and> (\<forall>row \<in> set (create_parent_child_master_table parse mapping df).
        sorted (child_product_ids row) \<and> distinct (child_product_ids row)
        \<and> sorted (child_product_names row) \<and> distinct (child_product_names row))"
proof -
  have a: "sorted (map parent_product_name (create_parent_child_master_table parse mapping df))"
    by (simp only: master_table_names sorted_group_keys)
  have b: "distinct (map parent_product_name (create_parent_child_master_table parse mapping df))"
    by (simp only: master_table_names distinct_group_keys)
  have c: "sorted (child_product_ids row) \<and> distinct (child_product_ids row)
        \<and> sorted (child_product_names row) \<and> distinct (child_product_names row)"
    if "row \<in> set (create_parent_child_master_table parse mapping df)" for row
    using that by (rule master_table_row_cases) simp
  from a b c show ?thesis by blast
qed

lemma set_dropna_name:
  "set (dropna_name df) = {as_product r n | r n. r \<in> set df \<and> raw_product_name r = Some n}"
  by (auto simp: dropna_name_def set_map_filter split: option.splits)

lemma set_surviving:
  "set (surviving df) =
     {as_product r n | r n. r \<in> set df \<and> raw_product_name r = Some n \<and> strip n \<noteq> ''0''}"
  by (auto simp: surviving_def drop_zero_names_def set_dropna_name as_product_def)

lemma as_product_simps [simp]:
  "product_id (as_product r n) = raw_product_id r"
  "product_name (as_product r n) = n"
  "product_created (as_product r n) = created_at r"
  by (simp_all add: as_product_def)

lemma parent_name_for_unmapped_member:
  assumes "r \<in> set df"
  obtains x where "x \<in> set df" and "cleaned_name (product_name x) = cleaned_name (product_name r)"
    and "parent_name_for_unmapped df r = Some (product_name x)"
proof -
  let ?g = "filter (\<lambda>x. cleaned_name (product_name x) = cleaned_name (product_name r)) df"
  from assms have "r \<in> set ?g" by simp
  then obtain x xs where g: "?g = x # xs" by (cases ?g) auto
  then have "x \<in> set ?g" by simp
  then have "x \<in> set df" "cleaned_name (product_name x) = cleaned_name (product_name r)"
    by auto
  moreover have "parent_name_for_unmapped df r = Some (product_name x)"
    by (simp add: parent_name_for_unmapped_def g)
  ultimately show thesis by (rule that)
qed

lemma parent_name_total:
  assumes "r \<in> set df"
  obtains p where "parent_name child_map df r = Some p"
proof (cases "parent_name_from_map child_map r")
  case None
  from assms obtain x where "x \<in> set df"
    "cleaned_name (product_name x) = cleaned_name (product_name r)"
    "parent_name_for_unmapped df r = Some (product_name x)"
    by (rule parent_name_for_unmapped_member)
  with None that show thesis by (simp add: parent_name_def)
next
  case (Some p)
  with that show thesis by (simp add: parent_name_def)
qed

lemma parent_name_same_name:
  "product_name r = product_name x \<Longrightarrow> parent_name child_map df r = parent_name child_map df x"
  unfolding parent_name_def parent_name_from_map_def parent_name_for_unmapped_def
  by (simp split: option.splits)

lemma set_group_rows:
  "set (group_rows child_map df p) = {r \<in> set df. parent_name child_map df r = Some p}"
  by (simp add: group_rows_def)

lemma row_child_ids:
  "set (child_product_ids (parent_group parse mapping df p)) =
     product_id ` {r \<in> set df. parent_name (create_child_to_parent_map mapping) df r = Some p}"
  by (simp add: set_group_rows)

lemma row_child_names:
  "set (child_product_names (parent_group parse mapping df p)) =
     product_name ` {r \<in> set df. parent_name (create_child_to_parent_map mapping) df r = Some p}"
  by (simp add: set_group_rows)

lemma row_of_record:
  assumes "r \<in> set (surviving df)"
    and "parent_name (create_child_to_parent_map mapping) (surviving df) r = Some p"
  shows "parent_group parse mapping (surviving df) p
           \<in> set (create_parent_child_master_table parse mapping df)"
proof -
  from assms have "p \<in> set (group_keys (create_child_to_parent_map mapping) (surviving df))"
    by (auto simp: set_group_keys)
  then show ?thesis by (simp add: master_table_rows)
qed

lemma child_ids_union:
  "(\<Union>row \<in> set (create_parent_child_master_table parse mapping df). set (child_product_ids row))
     = product_id ` set (surviving df)"
proof (intro equalityI subsetI)
  fix i
  assume "i \<in> (\<Union>row \<in> set (create_parent_child_master_table parse mapping df).
      set (child_product_ids row))"
  then obtain row where row: "row \<in> set (create_parent_child_master_table parse mapping df)"
    and i: "i \<in> set (child_product_ids row)" by blast
  from row obtain p where "row = parent_group parse mapping (surviving df) p"
    by (rule master_table_row_cases)
  with i show "i \<in> product_id ` set (surviving df)"
    by (auto simp: set_group_rows)
next
  fix i
  assume "i \<in> product_id ` set (surviving df)"
  then obtain r where r: "r \<in> set (surviving df)" and i: "i = product_id r" by blast
  from r obtain p where p: "parent_name (create_child_to_parent_map mapping) (surviving df) r = Some p"
    by (rule parent_name_total)
  from r p have "parent_group parse mapping (surviving df) p
           \<in> set (create_parent_child_master_table parse mapping df)"
    by (rule row_of_record)
  moreover from r p i have "i \<in> set (child_product_ids (parent_group parse mapping (surviving df) p))"
    by (auto simp: set_group_rows)
  ultimately show "i \<in> (\<Union>row \<in> set (create_parent_child_master_table parse mapping df).
      set (child_product_ids row))" by blast
qed

lemma child_ids_no_overlap:
  assumes same: "\<forall>r \<in> set (surviving df). \<forall>x \<in> set (surviving df).
      product_id r = product_id x \<longrightarrow>
        parent_name (create_child_to_parent_map mapping) (surviving df) r =
        parent_name (create_child_to_parent_map mapping) (surviving df) x"
    and r1: "row1 \<in> set (create_parent_child_master_table parse mapping df)"
    and r2: "row2 \<in> set (create_parent_child_master_table parse mapping df)"
    and i1: "i \<in> set (child_product_ids row1)"
    and i2: "i \<in> set (child_product_ids row2)"
  shows "row1 = row2"
proof -
  from r1 obtain p1 where p1: "row1 = parent_group parse mapping (surviving df) p1"
    by (rule master_table_row_cases)
  from r2 obtain p2 where p2: "row2 = parent_group parse mapping (surviving df) p2"
    by (rule master_table_row_cases)
  from i1 p1 obtain r where r: "r \<in> set (surviving df)" "product_id r = i"
    "parent_name (create_child_to_parent_map mapping) (surviving df) r = Some p1"
    by (auto simp: set_group_rows)
  from i2 p2 obtain x where x: "x \<in> set (surviving df)" "product_id x = i"
    "parent_name (create_child_to_parent_map mapping) (surviving df) x = Some p2"
    by (auto simp: set_group_rows)
  from same r x have "p1 = p2" by fastforce
  with p1 p2 show ?thesis by simp
qed

lemma row_in_table:
  "p \<in> set (group_keys (create_child_to_parent_map mapping) (surviving df)) \<Longrightarrow>
     parent_group parse mapping (surviving df) p
       \<in> set (create_parent_child_master_table parse mapping df)"
  by (simp add: master_table_rows)

lemma master_table_child_ids:
  "map child_product_ids (create_parent_child_master_table parse mapping df) =
     map (\<lambda>p. sort (unique (map product_id
            (group_rows (create_child_to_parent_map mapping) (surviving df) p))))
       (group_keys (create_child_to_parent_map mapping) (surviving df))"
  by (simp add: master_table_rows comp_def)

lemma master_table_child_names:
  "map child_product_names (create_parent_child_master_table parse mapping df) =
     map (\<lambda>p. sort (unique (map product_name
            (group_rows (create_child_to_parent_map mapping) (surviving df) p))))
       (group_keys (create_child_to_parent_map mapping) (surviving df))"
  by (simp add: master_table_rows comp_def)

lemma master_table_created:
  "map earliest_created_at (create_parent_child_master_table parse mapping df) =
     map (\<lambda>p. agg_created_at
            (map (\<lambda>r. to_datetime parse (map product_created (surviving df)) (product_created r))
               (group_rows (create_child_to_parent_map mapping) (surviving df) p)))
       (group_keys (create_child_to_parent_map mapping) (surviving df))"
  by (simp add: master_table_rows comp_def)

lemma sample_keys:
  "group_keys (create_child_to_parent_map sample_mapping) (surviving sample_records) =
     [''Tomato A'', ''zug soap '']"
  by code_simp

lemma sample_child_ids:
  "map child_product_ids
     (create_parent_child_master_table sample_parse sample_mapping sample_records) =
     [[''A1'', ''A2'', ''A3''], [''Z1'', ''Z2'']]"
  unfolding master_table_child_ids by code_simp

lemma sample_child_names:
  "map child_product_names
     (create_parent_child_master_table sample_parse sample_mapping sample_records) =
     [['' tomato a '', ''Tomato A'', ''Tomatoes Grade A''], [''Zug Soap'', ''zug soap '']]"
  unfolding master_table_child_names by code_simp

lemma sample_created:
  "map earliest_created_at
     (create_parent_child_master_table sample_parse sample_mapping sample_records) =
     [Some 1704067200000000000, None]"
  unfolding master_table_created by code_simp

lemma sample_parent_names:
  "map parent_product_name
     (create_parent_child_master_table sample_parse sample_mapping sample_records) =
     [''Tomato A'', ''zug soap '']"
  unfolding master_table_names by code_simp

lemma shared_id_child_ids:
  "map child_product_ids
     (create_parent_child_master_table sample_parse sample_mapping shared_id_records) =
     [[''1''], [''1'']]"
  unfolding master_table_child_ids by code_simp

lemma empty_name_parent_names:
  "map parent_product_name
     (create_parent_child_master_table sample_parse sample_mapping empty_name_records) =
     ['''', ''Tomato A'']"
  unfolding master_table_names by code_simp

lemma empty_name_child_names:
  "map child_product_names
     (create_parent_child_master_table sample_parse sample_mapping empty_name_records) =
     [[''''], [''Tomato A'']]"
  unfolding master_table_child_names by code_simp

text \<open>On the sample frame the first row is the one of Tomato A.\<close>

theorem master_table_sorted_witness:
  "hd (create_parent_child_master_table sample_parse sample_mapping sample_records)
     \<in> set (create_parent_child_master_table sample_parse sample_mapping sample_records)
   \<and> child_product_ids (hd (create_parent_child_master_table sample_parse sample_mapping sample_records))
       = [''A1'', ''A2'', ''A3'']
   \<and> sorted (child_product_ids (hd (create_parent_child_master_table sample_parse sample_mapping sample_records)))
   \<and> distinct (child_product_names (hd (create_parent_child_master_table sample_parse sample_mapping sample_records)))
   \<and> sorted (map parent_product_name
        (create_parent_child_master_table sample_parse sample_mapping sample_records))"
proof -
  let ?out = "create_parent_child_master_table sample_parse sample_mapping sample_records"
  have ne: "?out \<noteq> []" using sample_parent_names by auto
  then have m: "hd ?out \<in> set ?out" by simp
  have i: "child_product_ids (hd ?out) = [''A1'', ''A2'', ''A3'']"
    using sample_child_ids ne by (cases ?out) auto
  from m i master_table_sorted [of sample_parse sample_mapping sample_records]
  show ?thesis by blast
qed

text \<open>C5, as the code has it. The child ids of all rows together are the ids of the
  records that reach the grouping, none left out. A row lists exactly the ids of the
  records that resolve to its parent, so an id that two records carry under different
  parents stands in both rows; when records with equal ids resolve to equal parents
  (in particular when the ids are pairwise distinct), no id stands in two rows.\<close>

theorem child_ids_partition:
  "(\<Union>row \<in> set (create_parent_child_master_table parse mapping df). set (child_product_ids row))
     = product_id ` set (surviving df)
   \<and> (\<forall>row \<in> set (create_parent_child_master_table parse mapping df).
        set (child_product_ids row) =
          product_id ` {r \<in> set (surviving df).
             parent_name (create_child_to_parent_map mapping) (surviving df) r
               = Some (parent_product_name row)})
   \<and> ((\<forall>r \<in> set (surviving df). \<forall>x \<in> set (surviving df).
          product_id r = product_id x \<longrightarrow>
            parent_name (create_child_to_parent_map mapping) (surviving df) r =
            parent_name (create_child_to_parent_map mapping) (surviving df) x)
       \<longrightarrow> (\<forall>row1 \<in> set (create_parent_child_master_table parse mapping df).
            \<forall>row2 \<in> set (create_parent_child_master_table parse mapping df).
            \<forall>i. i \<in> set (child_product_ids row1) \<and> i \<in> set (child_product_ids row2)
              \<longrightarrow> row1 = row2))"
proof -
  have b: "set (child_product_ids row) =
          product_id ` {r \<in> set (surviving df).
             parent_name (create_child_to_parent_map mapping) (surviving df) r
               = Some (parent_product_name row)}"
    if "row \<in> set (create_parent_child_master_table parse mapping df)" for row
    using that by (rule master_table_row_cases) (simp add: set_group_rows)
  from child_ids_union [of parse mapping df] b child_ids_no_overlap [of df mapping _ parse]
  show ?thesis by blast
qed

lemma sample_ids_distinct: "distinct (map product_id (surviving sample_records))"
  by code_simp

text \<open>The ids of the sample frame are pairwise distinct.\<close>

theorem child_ids_partition_witness:
  "distinct (map product_id (surviving sample_records))
   \<and> (\<Union>row \<in> set (create_parent_child_master_table sample_parse sample_mapping sample_records).
         set (child_product_ids row)) = product_id ` set (surviving sample_records)
   \<and> \<not> (\<exists>row1 \<in> set (create_parent_child_master_table sample_parse sample_mapping sample_records).
         \<exists>row2 \<in> set (create_parent_child_master_table sample_parse sample_mapping sample_records).
         row1 \<noteq> row2 \<and> set (child_product_ids row1) \<inter> set (child_product_ids row2) \<noteq> {})"
proof -
  let ?sdf = "surviving sample_records"
  have same: "\<forall>r \<in> set ?sdf. \<forall>x \<in> set ?sdf. product_id r = product_id x \<longrightarrow>
      parent_name (create_child_to_parent_map sample_mapping) ?sdf r =
      parent_name (create_child_to_parent_map sample_mapping) ?sdf x"
    using sample_ids_distinct by (auto simp: distinct_map dest: inj_onD)
  from sample_ids_distinct same
    child_ids_partition [of sample_parse sample_mapping sample_records]
  show ?thesis by blast
qed

text \<open>Two records with the id 1, named Potato and Tomato: the id stands in both rows.\<close>

theorem shared_id_in_two_rows:
  "map child_product_ids
     (create_parent_child_master_table sample_parse sample_mapping shared_id_records)
     = [[''1''], [''1'']]
   \<and> \<not> distinct (concat (map child_product_ids
       (create_parent_child_master_table sample_parse sample_mapping shared_id_records)))"
  by (simp add: shared_id_child_ids)

section \<open>Resolution of parent names\<close>

lemma surviving_append: "surviving (xs @ ys) = surviving xs @ surviving ys"
  by (simp add: surviving_def dropna_name_def drop_zero_names_def map_filter_def)

lemma surviving_single:
  "raw_product_name f = Some s \<Longrightarrow> strip s \<noteq> ''0'' \<Longrightarrow> surviving [f] = [as_product f s]"
  by (simp add: surviving_def dropna_name_def drop_zero_names_def)

lemma member_surviving:
  "r \<in> set df \<Longrightarrow> raw_product_name r = Some s \<Longrightarrow> strip s \<noteq> ''0'' \<Longrightarrow>
     as_product r s \<in> set (surviving df)"
  by (auto simp: set_surviving)

lemma child_names_same_parent:
  assumes row: "row \<in> set (create_parent_child_master_table parse mapping df)"
    and s: "s \<in> set (child_product_names row)"
    and x: "x \<in> set (surviving df)" "product_name x = s"
  shows "parent_name (create_child_to_parent_map mapping) (surviving df) x
           = Some (parent_product_name row)"
proof -
  from row obtain p where p: "row = parent_group parse mapping (surviving df) p"
    by (rule master_table_row_cases)
  from s p obtain y where y: "y \<in> set (surviving df)" "product_name y = s"
    "parent_name (create_child_to_parent_map mapping) (surviving df) y = Some p"
    by (auto simp: set_group_rows)
  from x y have "parent_name (create_child_to_parent_map mapping) (surviving df) x =
      parent_name (create_child_to_parent_map mapping) (surviving df) y"
    by (intro parent_name_same_name) simp
  with y p show ?thesis by simp
qed

lemma record_in_its_row:
  assumes x: "x \<in> set (surviving df)"
    and p: "parent_name (create_child_to_parent_map mapping) (surviving df) x = Some p"
  shows "\<exists>row \<in> set (create_parent_child_master_table parse mapping df).
           parent_product_name row = p \<and> product_id x \<in> set (child_product_ids row)
           \<and> product_name x \<in> set (child_product_names row)"
proof -
  let ?row = "parent_group parse mapping (surviving df) p"
  from x p have "?row \<in> set (create_parent_child_master_table parse mapping df)"
    by (rule row_of_record)
  moreover have "parent_product_name ?row = p" by simp
  moreover from x p have "product_id x \<in> set (child_product_ids ?row)"
    by (auto simp: set_group_rows)
  moreover from x p have "product_name x \<in> set (child_product_names ?row)"
    by (auto simp: set_group_rows)
  ultimately show ?thesis by blast
qed

text \<open>C3. A record whose cleaned name is a key of the inverted alias table resolves
  to the parent the table declares for that key, whatever else the frame holds: the
  fallback name is consulted only where the table has no entry. When the record reaches
  the grouping, its id and its name stand in the row of that parent, and every row that
  lists the name is the row of that parent.\<close>

theorem alias_precedence:
  assumes declared: "create_child_to_parent_map mapping (cleaned_name s) = Some p"
    and r: "r \<in> set df" "raw_product_name r = Some s" "strip s \<noteq> ''0''"
  shows "parent_name (create_child_to_parent_map mapping) (surviving df) (as_product r s) = Some p
    \<and> (\<exists>row \<in> set (create_parent_child_master_table parse mapping df).
          parent_product_name row = p \<and> raw_product_id r \<in> set (child_product_ids row)
          \<and> s \<in> set (child_product_names row))
    \<and> (\<forall>row \<in> set (create_parent_child_master_table parse mapping df).
          s \<in> set (child_product_names row) \<longrightarrow> parent_product_name row = p)"
proof -
  let ?x = "as_product r s"
  have pn: "parent_name (create_child_to_parent_map mapping) (surviving df) ?x = Some p"
    using declared by (simp add: parent_name_def parent_name_from_map_def)
  from r have x: "?x \<in> set (surviving df)" by (rule member_surviving)
  from record_in_its_row [OF x pn, of parse]
  have ex: "\<exists>row \<in> set (create_parent_child_master_table parse mapping df).
          parent_product_name row = p \<and> raw_product_id r \<in> set (child_product_ids row)
          \<and> s \<in> set (child_product_names row)" by simp
  have only: "parent_product_name row = p"
    if "row \<in> set (create_parent_child_master_table parse mapping df)"
      and "s \<in> set (child_product_names row)" for row
  proof -
    from that x have "parent_name (create_child_to_parent_map mapping) (surviving df) ?x
           = Some (parent_product_name row)"
      by (intro child_names_same_parent) simp_all
    with pn show ?thesis by simp
  qed
  from pn ex only show ?thesis by blast
qed

lemma sample_alias: "create_child_to_parent_map sample_mapping (cleaned_name ''Tomatoes Grade A'')
    = Some ''Tomato A''"
  by code_simp

lemma sample_strip: "strip ''Tomatoes Grade A'' \<noteq> ''0''"
  by code_simp

text \<open>In the sample, Tomatoes Grade A is an alias of Tomato A; left to the fallback it
  would have named its own group.\<close>

theorem alias_precedence_witness:
  "create_child_to_parent_map sample_mapping (cleaned_name ''Tomatoes Grade A'') = Some ''Tomato A''
   \<and> (\<exists>row \<in> set (create_parent_child_master_table sample_parse sample_mapping sample_records).
          parent_product_name row = ''Tomato A'' \<and> ''A3'' \<in> set (child_product_ids row)
          \<and> ''Tomatoes Grade A'' \<in> set (child_product_names row))"
proof -
  let ?r = "\<lparr>raw_product_id = ''A3'', raw_product_name = Some ''Tomatoes Grade A'',
      created_at = None\<rparr>"
  have m: "?r \<in> set sample_records" by (simp add: sample_records_def)
  have n: "raw_product_name ?r = Some ''Tomatoes Grade A''" by simp
  from alias_precedence [OF sample_alias m n sample_strip, of sample_parse] sample_alias
  show ?thesis by simp
qed

text \<open>C4. Let \<open>k\<close> be a cleaned name that the alias table does not hold, and let
  \<open>f\<close> be the first record of the input whose name cleans to \<open>k\<close>, a record that
  reaches the grouping. Then the table has a row named by the raw name of \<open>f\<close>; the
  row lists the id and the name of every record that reaches the grouping with the key
  \<open>k\<close>, and no other row lists a name with that key.\<close>

theorem fallback_first_name:
  assumes unmapped: "create_child_to_parent_map mapping k = None"
    and parts: "df = pre @ f # post"
    and f: "raw_product_name f = Some s0" "cleaned_name s0 = k" "strip s0 \<noteq> ''0''"
    and first: "\<forall>x \<in> set pre. \<forall>s. raw_product_name x = Some s \<longrightarrow> cleaned_name s \<noteq> k"
  shows "\<exists>row \<in> set (create_parent_child_master_table parse mapping df).
           parent_product_name row = s0
           \<and> (\<forall>r \<in> set df. \<forall>s. raw_product_name r = Some s \<and> cleaned_name s = k
                  \<and> strip s \<noteq> ''0'' \<longrightarrow>
                raw_product_id r \<in> set (child_product_ids row)
                \<and> s \<in> set (child_product_names row))
           \<and> (\<forall>other \<in> set (create_parent_child_master_table parse mapping df).
                \<forall>s. s \<in> set (child_product_names other) \<and> cleaned_name s = k
                  \<longrightarrow> other = row)"
proof -
  let ?cm = "create_child_to_parent_map mapping"
  let ?sdf = "surviving df"
  let ?row = "parent_group parse mapping ?sdf s0"
  let ?out = "create_parent_child_master_table parse mapping df"
  have none_before: "filter (\<lambda>x. cleaned_name (product_name x) = k) (surviving pre) = []"
    using first by (auto simp: filter_empty_conv set_surviving)
  have sdf: "?sdf = surviving pre @ as_product f s0 # surviving post"
    using surviving_append [of pre "f # post"] surviving_append [of "[f]" post]
      surviving_single [OF f(1) f(3)] by (simp add: parts)
  have resolve: "parent_name ?cm ?sdf x = Some s0"
    if "cleaned_name (product_name x) = k" for x
  proof -
    have "filter (\<lambda>y. cleaned_name (product_name y) = k) ?sdf =
        as_product f s0 # filter (\<lambda>y. cleaned_name (product_name y) = k) (surviving post)"
      unfolding sdf using none_before f(2) by simp
    then have "parent_name_for_unmapped ?sdf x = Some s0"
      unfolding parent_name_for_unmapped_def that by simp
    then show ?thesis
      using unmapped that by (simp add: parent_name_def parent_name_from_map_def)
  qed
  have fm: "as_product f s0 \<in> set ?sdf" unfolding sdf by simp
  have "parent_name ?cm ?sdf (as_product f s0) = Some s0"
    by (rule resolve) (simp add: f(2))
  with fm have row: "?row \<in> set ?out" by (rule row_of_record)
  have nm: "parent_product_name ?row = s0" by simp
  have members: "raw_product_id r \<in> set (child_product_ids ?row)
      \<and> s \<in> set (child_product_names ?row)"
    if "r \<in> set df" "raw_product_name r = Some s" "cleaned_name s = k" "strip s \<noteq> ''0''"
    for r s
  proof -
    from that(1,2,4) have x: "as_product r s \<in> set ?sdf" by (rule member_surviving)
    have "parent_name ?cm ?sdf (as_product r s) = Some s0"
      by (rule resolve) (simp add: that(3))
    with x show ?thesis by (force simp: set_group_rows)
  qed
  have only: "other = ?row"
    if "other \<in> set ?out" "s \<in> set (child_product_names other)" "cleaned_name s = k"
    for other s
  proof -
    from that(1) obtain p where p: "other = parent_group parse mapping ?sdf p"
      by (rule master_table_row_cases)
    from that(2) p obtain y where y: "y \<in> set ?sdf" "product_name y = s"
      "parent_name ?cm ?sdf y = Some p"
      by (auto simp: set_group_rows)
    have "parent_name ?cm ?sdf y = Some s0"
      by (rule resolve) (simp add: y(2) that(3))
    with y(3) p show ?thesis by simp
  qed
  from row nm members only show ?thesis by blast
qed

lemma sample_unmapped: "create_child_to_parent_map sample_mapping ''zug soap'' = None"
  by code_simp

lemma sample_zug: "cleaned_name ''zug soap '' = ''zug soap'' \<and> strip ''zug soap '' \<noteq> ''0''
    \<and> cleaned_name ''Tomato A'' \<noteq> ''zug soap''"
  by code_simp

text \<open>In the sample the key \<open>zug soap\<close> is first met in the spelling with a trailing
  space, which names the group.\<close>

theorem fallback_first_name_witness:
  "create_child_to_parent_map sample_mapping ''zug soap'' = None
   \<and> cleaned_name ''zug soap '' = ''zug soap''
   \<and> (\<exists>row \<in> set (create_parent_child_master_table sample_parse sample_mapping sample_records).
         parent_product_name row = ''zug soap '')"
proof -
  let ?pre = "[\<lparr>raw_product_id = ''A1'', raw_product_name = Some ''Tomato A'',
      created_at = Some ''2024-01-03''\<rparr>]"
  let ?f = "\<lparr>raw_product_id = ''Z2'', raw_product_name = Some ''zug soap '',
      created_at = None\<rparr>"
  have s: "sample_records = ?pre @ ?f # drop 2 sample_records"
    by (simp add: sample_records_def)
  have n: "raw_product_name ?f = Some ''zug soap ''" by simp
  have first: "\<forall>x \<in> set ?pre. \<forall>s. raw_product_name x = Some s \<longrightarrow> cleaned_name s \<noteq> ''zug soap''"
    using sample_zug by simp
  from sample_zug have c: "cleaned_name ''zug soap '' = ''zug soap''"
    and z: "strip ''zug soap '' \<noteq> ''0''" by blast+
  from fallback_first_name [OF sample_unmapped s n c z first, of sample_parse]
    sample_unmapped c
  show ?thesis by blast
qed


section \<open>Timestamps and filtering\<close>

lemma set_dropna: "set (dropna xs) = {t. Some t \<in> set xs}"
  by (auto simp: dropna_def set_map_filter)

lemma series_min_Min:
  assumes "xs \<noteq> []"
  shows "series_min xs = Some (Min (set xs))"
proof (cases xs)
  case Nil
  with assms show ?thesis by simp
next
  case (Cons y ys)
  have "fold min ys y = Min (set (y # ys))" by (rule Min.set_eq_fold [symmetric])
  then show ?thesis unfolding Cons by (simp only: series_min.simps)
qed

lemma agg_created_at_Min:
  "agg_created_at dates =
     (if {t. Some t \<in> set dates} = {} then None else Some (Min {t. Some t \<in> set dates}))"
proof (cases "dropna dates = []")
  case True
  then have "set (dropna dates) = {}" by simp
  then have "{t. Some t \<in> set dates} = {}" by (simp only: set_dropna)
  with True show ?thesis by (simp add: agg_created_at_def)
next
  case False
  then have "set (dropna dates) \<noteq> {}" by simp
  then have ne: "{t. Some t \<in> set dates} \<noteq> {}" unfolding set_dropna .
  from False have "series_min (dropna dates) = Some (Min (set (dropna dates)))"
    by (rule series_min_Min)
  with False ne show ?thesis by (simp add: agg_created_at_def set_dropna)
qed

text \<open>C6. A null cell of \<open>created_at\<close> is read as null. In every row of the table,
  \<open>earliest_created_at\<close> is the least of the instants read from the records that resolve to
  the row's parent, the cells read as null (missing or unreadable) left out; it is null
  when no record of the group has a readable instant.\<close>

theorem earliest_created_at_is_minimum:
  "to_datetime parse column None = None
   \<and> (\<forall>row \<in> set (create_parent_child_master_table parse mapping df).
        earliest_created_at row =
          (let valid = {t. \<exists>r \<in> set (surviving df).
                  parent_name (create_child_to_parent_map mapping) (surviving df) r
                    = Some (parent_product_name row)
                  \<and> to_datetime parse (map product_created (surviving df)) (product_created r)
                    = Some t}
           in if valid = {} then None else Some (Min valid)))"
proof -
  have "earliest_created_at row =
          (let valid = {t. \<exists>r \<in> set (surviving df).
                  parent_name (create_child_to_parent_map mapping) (surviving df) r
                    = Some (parent_product_name row)
                  \<and> to_datetime parse (map product_created (surviving df)) (product_created r)
                    = Some t}
           in if valid = {} then None else Some (Min valid))"
    if "row \<in> set (create_parent_child_master_table parse mapping df)" for row
  proof -
    from that obtain p where p: "row = parent_group parse mapping (surviving df) p"
      by (rule master_table_row_cases)
    let ?dates = "map (\<lambda>r. to_datetime parse (map product_created (surviving df)) (product_created r))
        (group_rows (create_child_to_parent_map mapping) (surviving df) p)"
    have v: "{t. Some t \<in> set ?dates} =
        {t. \<exists>r \<in> set (surviving df).
            parent_name (create_child_to_parent_map mapping) (surviving df) r = Some p
            \<and> to_datetime parse (map product_created (surviving df)) (product_created r) = Some t}"
      by (auto simp: set_group_rows image_iff)
    have "earliest_created_at row = agg_created_at ?dates" by (simp add: p)
    also have "\<dots> = (if {t. Some t \<in> set ?dates} = {} then None
        else Some (Min {t. Some t \<in> set ?dates}))"
      by (rule agg_created_at_Min)
    finally show ?thesis unfolding v by (simp add: p Let_def)
  qed
  moreover have "to_datetime parse column None = None" by (simp add: to_datetime_def)
  ultimately show ?thesis by blast
qed

text \<open>In the sample the group of Tomato A has the dates 2024-01-03, 2024-01-01 and a
  null.\<close>

theorem earliest_created_at_is_minimum_witness:
  "hd (create_parent_child_master_table sample_parse sample_mapping sample_records)
     \<in> set (create_parent_child_master_table sample_parse sample_mapping sample_records)
   \<and> earliest_created_at
        (hd (create_parent_child_master_table sample_parse sample_mapping sample_records))
       = Some 1704067200000000000
   \<and> Min {t. \<exists>r \<in> set (surviving sample_records).
          parent_name (create_child_to_parent_map sample_mapping) (surviving sample_records) r
            = Some (parent_product_name
                (hd (create_parent_child_master_table sample_parse sample_mapping sample_records)))
          \<and> to_datetime sample_parse (map product_created (surviving sample_records))
                (product_created r) = Some t}
       = 1704067200000000000"
proof -
  let ?out = "create_parent_child_master_table sample_parse sample_mapping sample_records"
  have ne: "?out \<noteq> []" using sample_parent_names by auto
  then have m: "hd ?out \<in> set ?out" by simp
  have e: "earliest_created_at (hd ?out) = Some 1704067200000000000"
    using sample_created ne by (cases ?out) auto
  from earliest_created_at_is_minimum [of sample_parse "[]" sample_mapping sample_records] m
  have "earliest_created_at (hd ?out) =
          (let valid = {t. \<exists>r \<in> set (surviving sample_records).
                  parent_name (create_child_to_parent_map sample_mapping) (surviving sample_records) r
                    = Some (parent_product_name (hd ?out))
                  \<and> to_datetime sample_parse (map product_created (surviving sample_records))
                      (product_created r) = Some t}
           in if valid = {} then None else Some (Min valid))"
    by blast
  with e m show ?thesis by (simp add: Let_def split: if_splits)
qed

lemma declared_parent:
  assumes "create_child_to_parent_map mapping k = Some p"
  shows "p \<in> fst ` set mapping"
proof -
  from assms have "(k, p) \<in> set (alias_writes mapping)"
    by (auto simp: create_child_to_parent_map_map_of dest: map_of_SomeD)
  then show ?thesis by (force simp: alias_writes_def)
qed

lemma parent_name_origin:
  assumes "r \<in> set df" and "parent_name (create_child_to_parent_map mapping) df r = Some p"
  shows "p \<in> fst ` set mapping \<or> p \<in> product_name ` set df"
proof (cases "parent_name_from_map (create_child_to_parent_map mapping) r")
  case None
  from assms(1) obtain x where "x \<in> set df"
    "cleaned_name (product_name x) = cleaned_name (product_name r)"
    "parent_name_for_unmapped df r = Some (product_name x)"
    by (rule parent_name_for_unmapped_member)
  with None assms(2) show ?thesis by (auto simp: parent_name_def)
next
  case (Some q)
  with assms(2) have "create_child_to_parent_map mapping (cleaned_name (product_name r)) = Some p"
    by (simp add: parent_name_def parent_name_from_map_def)
  then show ?thesis by (auto dest: declared_parent)
qed

text \<open>C2, as the code has it. The records dropped before the grouping are those
  whose name is null or, stripped of whitespace, the string 0; the empty name is kept.
  Every child name of a row is the name of an input record and is not 0 when stripped;
  every child id of a row is the id of an input record that has such a name. The parent
  name of a row is a parent declared in the alias table or the name of a record that was
  kept; so it is not 0 unless the alias table declares a parent 0.\<close>

theorem dropped_names_never_grouped:
  "\<forall>row \<in> set (create_parent_child_master_table parse mapping df).
      (\<forall>n \<in> set (child_product_names row).
          strip n \<noteq> ''0'' \<and> (\<exists>r \<in> set df. raw_product_name r = Some n))
    \<and> (\<forall>i \<in> set (child_product_ids row).
          \<exists>r \<in> set df. raw_product_id r = i
             \<and> (\<exists>n. raw_product_name r = Some n \<and> strip n \<noteq> ''0''))
    \<and> (parent_product_name row \<in> fst ` set mapping
        \<or> strip (parent_product_name row) \<noteq> ''0''
           \<and> (\<exists>r \<in> set df. raw_product_name r = Some (parent_product_name row)))
    \<and> (''0'' \<notin> fst ` set mapping \<longrightarrow> parent_product_name row \<noteq> ''0'')"
proof
  fix row
  assume "row \<in> set (create_parent_child_master_table parse mapping df)"
  then obtain p where k: "p \<in> set (group_keys (create_child_to_parent_map mapping) (surviving df))"
    and p: "row = parent_group parse mapping (surviving df) p"
    by (rule master_table_row_cases)
  have names: "\<forall>n \<in> set (child_product_names row).
          strip n \<noteq> ''0'' \<and> (\<exists>r \<in> set df. raw_product_name r = Some n)"
    unfolding p by (auto simp: set_group_rows set_surviving)
  have ids: "\<forall>i \<in> set (child_product_ids row).
          \<exists>r \<in> set df. raw_product_id r = i
             \<and> (\<exists>n. raw_product_name r = Some n \<and> strip n \<noteq> ''0'')"
    unfolding p by (auto simp: set_group_rows set_surviving)
  from k obtain x where x: "x \<in> set (surviving df)"
    "parent_name (create_child_to_parent_map mapping) (surviving df) x = Some p"
    by (auto simp: set_group_keys)
  then have "p \<in> fst ` set mapping \<or> p \<in> product_name ` set (surviving df)"
    by (rule parent_name_origin)
  then have origin: "parent_product_name row \<in> fst ` set mapping
        \<or> strip (parent_product_name row) \<noteq> ''0''
           \<and> (\<exists>r \<in> set df. raw_product_name r = Some (parent_product_name row))"
    unfolding p by (auto simp: set_surviving)
  have zero: "''0'' \<notin> fst ` set mapping \<longrightarrow> parent_product_name row \<noteq> ''0''"
  proof
    assume a: "''0'' \<notin> fst ` set mapping"
    have s: "strip ''0'' = ''0''" by code_simp
    show "parent_product_name row \<noteq> ''0''"
    proof
      assume "parent_product_name row = ''0''"
      with origin a s show False by auto
    qed
  qed
  from names ids origin zero
  show "(\<forall>n \<in> set (child_product_names row).
          strip n \<noteq> ''0'' \<and> (\<exists>r \<in> set df. raw_product_name r = Some n))
    \<and> (\<forall>i \<in> set (child_product_ids row).
          \<exists>r \<in> set df. raw_product_id r = i
             \<and> (\<exists>n. raw_product_name r = Some n \<and> strip n \<noteq> ''0''))
    \<and> (parent_product_name row \<in> fst ` set mapping
        \<or> strip (parent_product_name row) \<noteq> ''0''
           \<and> (\<exists>r \<in> set df. raw_product_name r = Some (parent_product_name row)))
    \<and> (''0'' \<notin> fst ` set mapping \<longrightarrow> parent_product_name row \<noteq> ''0'')"
    by blast
qed

text \<open>In the sample the rows named null and 0 are dropped; the last row is the one of
  the soap.\<close>

theorem dropped_names_never_grouped_witness:
  "last (create_parent_child_master_table sample_parse sample_mapping sample_records)
     \<in> set (create_parent_child_master_table sample_parse sample_mapping sample_records)
   \<and> child_product_ids
        (last (create_parent_child_master_table sample_parse sample_mapping sample_records))
       = [''Z1'', ''Z2'']
   \<and> ''0'' \<notin> fst ` set sample_mapping
   \<and> parent_product_name
        (last (create_parent_child_master_table sample_parse sample_mapping sample_records))
       \<noteq> ''0''
   \<and> (\<exists>r \<in> set sample_records. raw_product_id r = ''Z1''
         \<and> (\<exists>n. raw_product_name r = Some n \<and> strip n \<noteq> ''0''))"
proof -
  let ?out = "create_parent_child_master_table sample_parse sample_mapping sample_records"
  have ne: "?out \<noteq> []" using sample_parent_names by auto
  then have m: "last ?out \<in> set ?out" by simp
  have "last (map child_product_ids ?out) = [''Z1'', ''Z2'']"
    by (simp only: sample_child_ids) simp
  with ne have i: "child_product_ids (last ?out) = [''Z1'', ''Z2'']"
    by (simp add: last_map)
  have z: "''0'' \<notin> fst ` set sample_mapping" by (simp add: sample_mapping_def)
  from dropped_names_never_grouped [of sample_parse sample_mapping sample_records] m
  have "(\<forall>i \<in> set (child_product_ids (last ?out)).
          \<exists>r \<in> set sample_records. raw_product_id r = i
             \<and> (\<exists>n. raw_product_name r = Some n \<and> strip n \<noteq> ''0''))
     \<and> (''0'' \<notin> fst ` set sample_mapping \<longrightarrow> parent_product_name (last ?out) \<noteq> ''0'')"
    by blast
  with m i z show ?thesis by simp
qed

text \<open>A record with the empty name is not dropped: it forms a group whose parent name
  is the empty string.\<close>

theorem empty_name_is_grouped:
  "map parent_product_name
     (create_parent_child_master_table sample_parse sample_mapping empty_name_records)
     = ['''', ''Tomato A'']
   \<and> map child_product_names
     (create_parent_child_master_table sample_parse sample_mapping empty_name_records)
     = [[''''], [''Tomato A'']]"
  using empty_name_parent_names empty_name_child_names by simp

section \<open>The identifier is the version-5 UUID of the name\<close>

lemma from_bytes_Nil [simp]: "from_bytes [] = 0"
  by (simp add: from_bytes_def)

















lemma hex_digit_0 [simp]: "hex_digit 0 = CHR ''0''"
  by code_simp

lemma length_hex_byte [simp]: "length (hex_byte b) = 2"
  by (simp add: hex_byte_def)


lemma length_hexn [simp]: "length (hexn k n) = k"
  by (induction k arbitrary: n) simp_all










lemma length_word32_bytes [simp]: "length (word32_bytes w) = 4"
  by (simp add: word32_bytes_def)





subsection \<open>The identifier of Potato\<close>














end
